theory Spec2Isabelle
  imports Complex_Main
begin

section \<open>Data model of the inspection game\<close>

text \<open>
  Python floats are modelled as ideal reals; Python's unbounded integers as \<open>int\<close>, and
  pure counters as \<open>nat\<close>.  The generator \<open>random.Random\<close> belongs to the Python
  library: an instance of it is modelled by the stream of values its successive
  \<open>random()\<close> calls return, and the seeding function is a parameter of the constructor.
  Binary floating point holds the sums of the trust steps slightly off the decimal
  fractions (0.5 + 0.05 + 0.05 is 0.6000000000000001), so a strict comparison of the
  trust level with 0.6, 0.65, 0.7 or 0.75 can take the other branch in the code when the
  ideal value sits exactly on the threshold; the properties below do not depend on which
  branch such a comparison takes.
\<close>

datatype saction = Smuggle | LayLow | Bribe | SignalTruce

datatype iaction = Inspect | DontInspect | AcceptBribe | SetTrap

datatype deal = Accepted | Trap | Safe

datatype mood = Neutral | Aggressive | Friendly | Deceptive

type_synonym rng = "nat \<Rightarrow> real"

type_synonym decision = "iaction \<times> bool \<times> string option"

record inspector =
  rng :: rng
  llm :: "(nat \<Rightarrow> string option) option"
  llm_calls :: nat
  honesty_streak :: nat
  betrayal_count :: nat
  mood :: mood
  history_smuggler :: "saction list"
  history_inspector :: "iaction list"
  history_bribes_offered :: nat
  history_bribes_accepted :: nat
  history_truces_signaled :: nat
  history_traps_set :: nat
  history_traps_sprung :: nat
  trust_level :: real
  pending_deal :: "deal option"
  immunity_turns :: int
  consecutive_passive_rounds :: nat
  greed :: real
  deceptiveness :: real
  adaptiveness :: real

definition EARLY_GAME_END :: int where "EARLY_GAME_END = 6"
definition MID_GAME_END :: int where "MID_GAME_END = 14"
definition PAYOFF_SMUGGLE_INSPECT :: int where "PAYOFF_SMUGGLE_INSPECT = - 5"
definition PAYOFF_SMUGGLE_DONT :: int where "PAYOFF_SMUGGLE_DONT = 10"
definition PAYOFF_LAYLOW_INSPECT :: int where "PAYOFF_LAYLOW_INSPECT = 0"
definition PAYOFF_LAYLOW_DONT :: int where "PAYOFF_LAYLOW_DONT = 1"
definition BRIBE_COST :: int where "BRIBE_COST = 3"

section \<open>The seeded random source\<close>

definition rng_random :: "rng \<Rightarrow> real \<times> rng" where
  "rng_random g = (g 0, \<lambda>n. g (Suc n))"

definition rng_uniform :: "real \<Rightarrow> real \<Rightarrow> rng \<Rightarrow> real \<times> rng" where
  "rng_uniform a b g = (case rng_random g of (u, g') \<Rightarrow> (a + (b - a) * u, g'))"

text \<open>One draw of \<open>self.rng.random()\<close> on an instance.\<close>

definition draw :: "inspector \<Rightarrow> real \<times> inspector" where
  "draw s = (case rng_random (rng s) of (u, g') \<Rightarrow> (u, s\<lparr>rng := g'\<rparr>))"

definition draw_uniform :: "real \<Rightarrow> real \<Rightarrow> inspector \<Rightarrow> real \<times> inspector" where
  "draw_uniform a b s = (case rng_uniform a b (rng s) of (u, g') \<Rightarrow> (u, s\<lparr>rng := g'\<rparr>))"

section \<open>Payoff calculator\<close>

definition calculate_payoff :: "saction \<Rightarrow> iaction \<Rightarrow> bool \<Rightarrow> int \<Rightarrow> int" where
  "calculate_payoff player_action inspector_action bribe_accepted amount =
    (let base = (if player_action = Bribe then - BRIBE_COST else 0);
         effective_player =
           (if player_action = Bribe \<or> player_action = SignalTruce then LayLow
            else player_action)
     in if effective_player = Smuggle then
          (if inspector_action = Inspect then base + PAYOFF_SMUGGLE_INSPECT * amount
           else base + PAYOFF_SMUGGLE_DONT * amount)
        else
          (if inspector_action = Inspect then base + PAYOFF_LAYLOW_INSPECT
           else base + PAYOFF_LAYLOW_DONT))"

section \<open>Trust tracker and frequency accessors\<close>

definition get_smuggle_frequency :: "inspector \<Rightarrow> real" where
  "get_smuggle_frequency s =
    (if history_smuggler s = [] then 3 / 10
     else real (length (filter (\<lambda>a. a = Smuggle) (history_smuggler s)))
          / real (length (history_smuggler s)))"

definition get_cooperation_frequency :: "inspector \<Rightarrow> real" where
  "get_cooperation_frequency s =
    (if history_smuggler s = [] then 1 / 2
     else real (length (filter (\<lambda>a. a \<in> set [LayLow, SignalTruce, Bribe]) (history_smuggler s)))
          / real (length (history_smuggler s)))"

definition update_trust :: "saction option \<Rightarrow> inspector \<Rightarrow> inspector" where
  "update_trust last_player_action s =
    (case last_player_action of
       None \<Rightarrow> s
     | Some a \<Rightarrow>
         if a = Smuggle then
           s\<lparr>trust_level := max 0 (trust_level s - 1 / 10), consecutive_passive_rounds := 0\<rparr>
         else if a = LayLow \<or> a = SignalTruce then
           s\<lparr>trust_level := min 1 (trust_level s + 5 / 100),
             consecutive_passive_rounds := consecutive_passive_rounds s + 1\<rparr>
         else if a = Bribe then
           s\<lparr>trust_level := min 1 (trust_level s + 2 / 100), consecutive_passive_rounds := 0\<rparr>
         else s)"

definition set_mood :: "int \<Rightarrow> real \<Rightarrow> inspector \<Rightarrow> inspector" where
  "set_mood round_num smuggle_freq s =
    (if smuggle_freq > 1 / 2 then s\<lparr>mood := Aggressive\<rparr>
     else if trust_level s > 7 / 10 then
       (case draw s of (u, s1) \<Rightarrow>
          if u < deceptiveness s1 then s1\<lparr>mood := Deceptive\<rparr> else s1\<lparr>mood := Friendly\<rparr>)
     else s\<lparr>mood := Neutral\<rparr>)"

section \<open>Pattern detector\<close>

definition is_passive :: "saction \<Rightarrow> bool" where
  "is_passive a = (a = LayLow \<or> a = SignalTruce)"

text \<open>The slice \<open>xs[-n:]\<close> of Python: the last \<open>n\<close> elements, or all of them.\<close>

definition last_n :: "nat \<Rightarrow> 'a list \<Rightarrow> 'a list" where
  "last_n n xs = drop (length xs - n) xs"

definition detect_pattern :: "inspector \<Rightarrow> iaction option" where
  "detect_pattern s =
    (let hist = history_smuggler s in
     if length hist < 3 then None
     else
       let last_3 = last_n 3 hist in
       if list_all (\<lambda>a. a = Smuggle) last_3 then Some Inspect
       else if list_all is_passive last_3 then Some DontInspect
       else if length hist \<ge> 4 \<and>
               (let h = last_n 4 hist in h ! 0 \<noteq> h ! 1 \<and> h ! 1 \<noteq> h ! 2 \<and> h ! 2 \<noteq> h ! 3)
            then (if is_passive (last (last_n 4 hist)) then Some Inspect else Some DontInspect)
       else None)"

section \<open>Dialogue collaborator\<close>

text \<open>
  The optional remote dialogue generator answers each request with a string or with
  nothing; the \<open>n\<close>-th answer of the attached generator is \<open>f n\<close>.  An empty answer is
  falsy in Python and is replaced by the static line, like a missing one.
\<close>

definition llm_or_fallback :: "string \<Rightarrow> inspector \<Rightarrow> string \<times> inspector" where
  "llm_or_fallback fallback s =
    (case llm s of
       None \<Rightarrow> (fallback, s)
     | Some f \<Rightarrow>
         (let s' = s\<lparr>llm_calls := llm_calls s + 1\<rparr> in
          case f (llm_calls s) of
            None \<Rightarrow> (fallback, s')
          | Some txt \<Rightarrow> if txt \<noteq> [] then (txt, s') else (fallback, s')))"

definition get_bribe_response :: "bool \<Rightarrow> bool \<Rightarrow> inspector \<Rightarrow> string \<times> inspector" where
  "get_bribe_response accepted will_honor s =
    llm_or_fallback
      (if accepted then
         (if will_honor then ''Deal. You've bought yourself a pass.''
          else ''Deal. I'll look the other way.'')
       else ''I can't be bought. Not today.'') s"

definition get_truce_response :: "bool \<Rightarrow> inspector \<Rightarrow> string \<times> inspector" where
  "get_truce_response trust_high s =
    llm_or_fallback
      (if trust_high then ''Noted. Maybe we can work together.''
       else ''Trust is earned, not given.'') s"

definition record_honesty :: "bool \<Rightarrow> inspector \<Rightarrow> inspector" where
  "record_honesty kept_word s =
    (if kept_word then s\<lparr>honesty_streak := honesty_streak s + 1\<rparr>
     else s\<lparr>honesty_streak := 0, betrayal_count := betrayal_count s + 1\<rparr>)"

section \<open>Decision engine\<close>

definition early_game_decision :: "int \<Rightarrow> inspector \<Rightarrow> decision \<times> inspector" where
  "early_game_decision round_num s =
    (case draw_uniform (- (1 / 10)) (1 / 10) s of (noise, s1) \<Rightarrow>
     let base_prob = 6 / 10 + noise;
         roll = (\<lambda>t. case draw t of (v, t') \<Rightarrow>
                  if v < base_prob then ((Inspect, False, None), t')
                  else ((DontInspect, False, None), t'))
     in if round_num \<ge> 4 then
          (case draw s1 of (u, s2) \<Rightarrow>
             if u < 15 / 100 then ((Inspect, True, Some ''I might go easy on you...''), s2)
             else roll s2)
        else roll s1)"

definition mid_game_standard :: "real \<Rightarrow> inspector \<Rightarrow> decision \<times> inspector" where
  "mid_game_standard smuggle_freq s =
    (let inspect_prob =
           (if smuggle_freq > 45 / 100 then 75 / 100 + adaptiveness s * (1 / 10)
            else if smuggle_freq < 2 / 10 then 35 / 100 - adaptiveness s * (1 / 10)
            else 55 / 100)
     in case draw s of (u, s1) \<Rightarrow>
        if u < deceptiveness s1 * (4 / 10) then
          (case draw s1 of (v, s2) \<Rightarrow>
             if v < 1 / 2 then ((Inspect, True, Some ''Taking it easy this round.''), s2)
             else ((DontInspect, False, Some ''You're definitely getting caught.''), s2))
        else
          (case draw s1 of (w, s2) \<Rightarrow>
             if w < inspect_prob then ((Inspect, False, None), s2)
             else ((DontInspect, False, None), s2)))"

definition mid_game_decision :: "int \<Rightarrow> real \<Rightarrow> real \<Rightarrow> inspector \<Rightarrow> decision \<times> inspector" where
  "mid_game_decision round_num smuggle_freq coop_freq s =
    (if trust_level s > 65 / 100 \<and> consecutive_passive_rounds s \<ge> 2 then
       (case draw s of (u, s1) \<Rightarrow>
          if u < trust_level s1 - 3 / 10 then
            ((DontInspect, False, Some ''Let's keep this arrangement going.''), s1)
          else
            (case draw s1 of (v, s2) \<Rightarrow>
               if v < deceptiveness s2 then
                 ((Inspect, True, Some ''I appreciate the cooperation...''),
                  s2\<lparr>history_traps_set := history_traps_set s2 + 1\<rparr>)
               else mid_game_standard smuggle_freq s2))
     else mid_game_standard smuggle_freq s)"

definition late_game_fallback :: "int \<Rightarrow> inspector \<Rightarrow> decision \<times> inspector" where
  "late_game_fallback round_num s =
    (let mixed = (\<lambda>t. case draw t of (v, t') \<Rightarrow>
                    if v < 55 / 100 then ((Inspect, False, None), t')
                    else ((DontInspect, False, None), t'))
     in if round_num \<ge> 19 then
          (case draw s of (u, s1) \<Rightarrow>
             if u < 7 / 10 then ((Inspect, False, Some ''Can't let you win now.''), s1)
             else mixed s1)
        else mixed s)"

definition late_game_exploit :: "int \<Rightarrow> real \<Rightarrow> inspector \<Rightarrow> decision \<times> inspector" where
  "late_game_exploit round_num smuggle_freq s =
    (if smuggle_freq > 55 / 100 then
       ((Inspect, False, Some ''Too aggressive. Predictable.''), s)
     else if smuggle_freq < 2 / 10 then
       (case draw s of (u, s1) \<Rightarrow>
          if u < deceptiveness s1 then ((Inspect, True, Some ''Safe players are boring.''), s1)
          else ((DontInspect, False, None), s1))
     else late_game_fallback round_num s)"

definition late_game_trust :: "int \<Rightarrow> real \<Rightarrow> inspector \<Rightarrow> decision \<times> inspector" where
  "late_game_trust round_num smuggle_freq s =
    (if trust_level s > 75 / 100 \<and> round_num \<ge> 18 then
       (case draw s of (u, s1) \<Rightarrow>
          if u < 1 / 2 then ((DontInspect, False, Some ''We've built something here.''), s1)
          else late_game_exploit round_num smuggle_freq s1)
     else late_game_exploit round_num smuggle_freq s)"

definition late_game_decision :: "int \<Rightarrow> real \<Rightarrow> real \<Rightarrow> inspector \<Rightarrow> decision \<times> inspector" where
  "late_game_decision round_num smuggle_freq coop_freq s =
    (case detect_pattern s of
       Some pattern_action \<Rightarrow>
         (case draw s of (u, s1) \<Rightarrow>
            if u < 7 / 10 then ((pattern_action, False, Some ''I see what you're doing.''), s1)
            else late_game_trust round_num smuggle_freq s1)
     | None \<Rightarrow> late_game_trust round_num smuggle_freq s)"

text \<open>The body of \<open>decide\<close> below its two early returns.\<close>

definition decide_phase :: "int \<Rightarrow> saction option \<Rightarrow> inspector \<Rightarrow> decision \<times> inspector" where
  "decide_phase round_num last_player_action s =
    (let smuggle_freq = get_smuggle_frequency s;
         coop_freq = get_cooperation_frequency s;
         s1 = update_trust last_player_action s;
         s2 = set_mood round_num smuggle_freq s1
     in if round_num \<le> EARLY_GAME_END then early_game_decision round_num s2
        else if round_num \<le> MID_GAME_END then mid_game_decision round_num smuggle_freq coop_freq s2
        else late_game_decision round_num smuggle_freq coop_freq s2)"

definition decide :: "int \<Rightarrow> int \<Rightarrow> saction option \<Rightarrow> inspector \<Rightarrow> decision \<times> inspector" where
  "decide round_num player_score last_player_action s =
    (if immunity_turns s > 0 then
       ((DontInspect, False, Some ''I'm looking the other way.''),
        s\<lparr>immunity_turns := immunity_turns s - 1\<rparr>)
     else if pending_deal s = Some Accepted then
       (let s1 = s\<lparr>pending_deal := None\<rparr> in
        case draw s1 of (u, s2) \<Rightarrow>
          if u > deceptiveness s2 then
            ((DontInspect, False, Some ''I'll keep my word.''), record_honesty True s2)
          else
            (let s3 = record_honesty False s2 in
             ((Inspect, True, Some ''A deal's a deal... or is it?''),
              s3\<lparr>history_traps_set := history_traps_set s3 + 1\<rparr>)))
     else decide_phase round_num last_player_action s)"

section \<open>Bribe and truce resolver, round recorder\<close>

definition handle_bribe :: "int \<Rightarrow> int \<Rightarrow> inspector \<Rightarrow> (bool \<times> string) \<times> inspector" where
  "handle_bribe round_num player_score s =
    (let s1 = s\<lparr>history_bribes_offered := history_bribes_offered s + 1\<rparr>;
         acceptance_prob0 = greed s1 + trust_level s1 * (2 / 10);
         acceptance_prob =
           (if round_num > MID_GAME_END then acceptance_prob0 - 15 / 100 else acceptance_prob0)
     in case draw s1 of (u, s2) \<Rightarrow>
        if u < acceptance_prob then
          (let s3 = s2\<lparr>history_bribes_accepted := history_bribes_accepted s2 + 1\<rparr> in
           case draw s3 of (v, s4) \<Rightarrow>
             let will_betray = (v < deceptiveness s4 * (1 / 2));
                 s5 = (if will_betray then s4\<lparr>pending_deal := Some Trap\<rparr>
                       else s4\<lparr>pending_deal := Some Accepted\<rparr>)
             in case get_bribe_response True (\<not> will_betray) s5 of (response, s6) \<Rightarrow>
                let s7 = (if \<not> will_betray
                          then s6\<lparr>immunity_turns := 2, pending_deal := Some Safe\<rparr>
                          else s6)
                in ((True, response), s7))
        else
          (case get_bribe_response False False s2 of (response, s3) \<Rightarrow>
             ((False, response), s3)))"

definition handle_truce_signal :: "inspector \<Rightarrow> string \<times> inspector" where
  "handle_truce_signal s =
    (let s1 = s\<lparr>history_truces_signaled := history_truces_signaled s + 1\<rparr>;
         trust_high = (trust_level s1 > 6 / 10);
         s2 = (if trust_high then s1\<lparr>trust_level := min 1 (trust_level s1 + 1 / 10)\<rparr> else s1)
     in get_truce_response trust_high s2)"

definition record_round :: "saction \<Rightarrow> iaction \<Rightarrow> bool \<Rightarrow> inspector \<Rightarrow> inspector" where
  "record_round player_action inspector_action was_trap_sprung s =
    (let s1 = s\<lparr>history_smuggler := history_smuggler s @ [player_action],
                history_inspector := history_inspector s @ [inspector_action]\<rparr>
     in if was_trap_sprung then s1\<lparr>history_traps_sprung := history_traps_sprung s1 + 1\<rparr>
        else s1)"

section \<open>Construction\<close>

text \<open>
  \<open>InspectorAI_init seeded seed generator\<close> is \<open>InspectorAI(seed, generator)\<close>, where
  \<open>seeded\<close> stands for \<open>random.Random\<close>: it maps a seed to the stream of the generator
  it creates.
\<close>

definition InspectorAI_init ::
  "(int \<Rightarrow> rng) \<Rightarrow> int \<Rightarrow> (nat \<Rightarrow> string option) option \<Rightarrow> inspector" where
  "InspectorAI_init seeded seed llm_generator =
    (let s0 = \<lparr>rng = seeded seed, llm = llm_generator, llm_calls = 0,
               honesty_streak = 0, betrayal_count = 0, mood = Neutral,
               history_smuggler = [], history_inspector = [],
               history_bribes_offered = 0, history_bribes_accepted = 0,
               history_truces_signaled = 0, history_traps_set = 0, history_traps_sprung = 0,
               trust_level = 1 / 2, pending_deal = None, immunity_turns = 0,
               consecutive_passive_rounds = 0,
               greed = 0, deceptiveness = 0, adaptiveness = 0\<rparr>
     in case draw_uniform (3 / 10) (7 / 10) s0 of (g, s1) \<Rightarrow>
        case draw_uniform (2 / 10) (6 / 10) s1 of (d, s2) \<Rightarrow>
        case draw_uniform (4 / 10) (8 / 10) s2 of (a, s3) \<Rightarrow>
          s3\<lparr>greed := g, deceptiveness := d, adaptiveness := a\<rparr>)"

section \<open>The round driver's decision block\<close>

text \<open>
  The part of \<open>play_round\<close> between reading the player's move and computing the payoff:
  the special actions, the call of \<open>decide\<close>, the override after an accepted bribe or a
  pending trap, and the bait check.
\<close>

record resolution =
  res_action :: iaction
  res_is_bait :: bool
  res_announced :: "string option"
  res_bribe_accepted :: bool
  res_was_trap :: bool

definition bribe_override :: "bool \<Rightarrow> iaction \<Rightarrow> inspector \<Rightarrow> (iaction \<times> bool) \<times> inspector" where
  "bribe_override bribe_accepted inspector_action s =
    (if bribe_accepted \<and> pending_deal s \<noteq> Some Trap then ((DontInspect, False), s)
     else if pending_deal s = Some Trap then ((Inspect, True), s\<lparr>pending_deal := None\<rparr>)
     else ((inspector_action, False), s))"

definition resolve_round ::
  "int \<Rightarrow> int \<Rightarrow> saction option \<Rightarrow> saction \<Rightarrow> inspector \<Rightarrow> resolution \<times> inspector" where
  "resolve_round round_num score last_player_action player_action s =
    (case (if player_action = Bribe then
             (case handle_bribe round_num score s of ((acc, response), t) \<Rightarrow> (acc, t))
           else if player_action = SignalTruce then
             (case handle_truce_signal s of (response, t) \<Rightarrow> (False, t))
           else (False, s)) of (bribe_accepted, s1) \<Rightarrow>
     case decide round_num score last_player_action s1 of ((act, is_bait, announced), s2) \<Rightarrow>
     case bribe_override bribe_accepted act s2 of ((act', was_trap), s3) \<Rightarrow>
       (\<lparr>res_action = act', res_is_bait = is_bait, res_announced = announced,
         res_bribe_accepted = bribe_accepted,
         res_was_trap = (was_trap \<or> (is_bait \<and> player_action = Smuggle))\<rparr>, s3))"

section \<open>Driving an instance through its interface\<close>

text \<open>
  A call of the public interface, what it returns, and the effect of a sequence of calls
  on an instance.  \<open>UpdateTrust\<close> is the private trust update, which \<open>decide\<close> performs
  itself.
\<close>

datatype call =
    Decide int int "saction option"
  | HandleBribe int int
  | HandleTruce
  | RecordRound saction iaction bool
  | UpdateTrust "saction option"

datatype reply =
    Decision decision
  | BribeReply bool string
  | TruceReply string
  | NoReply

fun perform :: "call \<Rightarrow> inspector \<Rightarrow> reply \<times> inspector" where
  "perform (Decide round_num score last_action) s =
     (case decide round_num score last_action s of (d, s') \<Rightarrow> (Decision d, s'))"
| "perform (HandleBribe round_num score) s =
     (case handle_bribe round_num score s of ((acc, response), s') \<Rightarrow> (BribeReply acc response, s'))"
| "perform HandleTruce s =
     (case handle_truce_signal s of (response, s') \<Rightarrow> (TruceReply response, s'))"
| "perform (RecordRound pa ia trap) s = (NoReply, record_round pa ia trap s)"
| "perform (UpdateTrust last_action) s = (NoReply, update_trust last_action s)"

fun run :: "call list \<Rightarrow> inspector \<Rightarrow> reply list \<times> inspector" where
  "run [] s = ([], s)"
| "run (c # cs) s =
     (case perform c s of (r, s') \<Rightarrow> case run cs s' of (rs, s'') \<Rightarrow> (r # rs, s''))"

text \<open>
  What a caller observes of a reply apart from the response texts of the dialogue
  collaborator: the decision triple and whether a bribe was accepted.
\<close>

datatype observation = SawDecision decision | SawBribe bool | SawNothing

fun observe :: "reply \<Rightarrow> observation" where
  "observe (Decision d) = SawDecision d"
| "observe (BribeReply acc response) = SawBribe acc"
| "observe (TruceReply response) = SawNothing"
| "observe NoReply = SawNothing"

text \<open>The instance without its dialogue collaborator.\<close>

definition without_llm :: "inspector \<Rightarrow> inspector" where
  "without_llm s = s\<lparr>llm := None, llm_calls := 0\<rparr>"

text \<open>
  Sample generators: \<open>scripted_random xs d\<close> returns the values of \<open>xs\<close> in turn and
  \<open>d\<close> from then on, whatever the seed.
\<close>

definition scripted_random :: "real list \<Rightarrow> real \<Rightarrow> int \<Rightarrow> rng" where
  "scripted_random xs d seed n = (if n < length xs then xs ! n else d)"

section \<open>State predicates\<close>

text \<open>Two states agree on the deal bookkeeping and on the trust level.\<close>

definition same_deal :: "inspector \<Rightarrow> inspector \<Rightarrow> bool" where
  "same_deal s t =
    (pending_deal t = pending_deal s \<and> immunity_turns t = immunity_turns s
     \<and> trust_level t = trust_level s)"

text \<open>The trust level lies in the unit interval.\<close>

definition trust_bounded :: "inspector \<Rightarrow> bool" where
  "trust_bounded s = (0 \<le> trust_level s \<and> trust_level s \<le> 1)"

text \<open>The state with its pending deal replaced.\<close>

definition with_deal :: "deal option \<Rightarrow> inspector \<Rightarrow> inspector" where
  "with_deal p s = s\<lparr>pending_deal := p\<rparr>"

section \<open>Properties\<close>

lemmas game_constants = EARLY_GAME_END_def MID_GAME_END_def PAYOFF_SMUGGLE_INSPECT_def
  PAYOFF_SMUGGLE_DONT_def PAYOFF_LAYLOW_INSPECT_def PAYOFF_LAYLOW_DONT_def BRIBE_COST_def

lemma init_fields:
  "history_smuggler (InspectorAI_init seeded seed l) = []"
  "trust_level (InspectorAI_init seeded seed l) = 1 / 2"
  "pending_deal (InspectorAI_init seeded seed l) = None"
  "immunity_turns (InspectorAI_init seeded seed l) = 0"
  "consecutive_passive_rounds (InspectorAI_init seeded seed l) = 0"
  "greed (InspectorAI_init seeded seed l) = 3 / 10 + 4 / 10 * seeded seed 0"
  "deceptiveness (InspectorAI_init seeded seed l) = 2 / 10 + 4 / 10 * seeded seed 1"
  "adaptiveness (InspectorAI_init seeded seed l) = 4 / 10 + 4 / 10 * seeded seed 2"
  "rng (InspectorAI_init seeded seed l) = (\<lambda>n. seeded seed (n + 3))"
  "llm (InspectorAI_init seeded seed l) = l"
  by (simp_all add: InspectorAI_init_def draw_uniform_def rng_uniform_def rng_random_def
      Let_def eval_nat_numeral)

subsection \<open>Payoff calculator\<close>

text \<open>
  C7.  The payoff is the bribe cost (\<open>-3\<close> exactly when the smuggler's action is Bribe,
  whatever the outcome) plus, for Smuggle, \<open>-5\<close> times the quantity when inspected and
  \<open>10\<close> times the quantity otherwise, and for every other action (Bribe and SignalTruce
  count as LayLow) the unscaled \<open>0\<close> when inspected and \<open>1\<close> otherwise.  In particular:
  Smuggle caught at quantity 1 gives \<open>-5\<close>, Smuggle uncaught at quantity 3 gives \<open>30\<close>, a
  rejected Bribe that is inspected gives \<open>-3\<close>, LayLow not inspected gives \<open>1\<close>.
\<close>

theorem calculate_payoff_cases:
  "calculate_payoff pa ia b q =
      (if pa = Bribe then - 3 else 0)
      + (if pa = Smuggle then (if ia = Inspect then - 5 * q else 10 * q)
         else (if ia = Inspect then 0 else 1))
   \<and> calculate_payoff Smuggle Inspect b 1 = - 5
   \<and> calculate_payoff Smuggle DontInspect b 3 = 30
   \<and> calculate_payoff Bribe Inspect False q = - 3
   \<and> calculate_payoff LayLow DontInspect b q = 1"
  by (cases pa) (simp_all add: calculate_payoff_def game_constants)

subsection \<open>Immunity\<close>

text \<open>
  C2.  A call of \<open>decide\<close> with a positive immunity counter returns DontInspect, not a
  bait, with the fixed line, and its only effect on the state is to lower the counter by
  one: no trust update, no mood change, no random draw, no phase logic.
\<close>

theorem decide_immune:
  "immunity_turns s > 0 \<Longrightarrow>
     decide round_num player_score last_player_action s =
       ((DontInspect, False, Some ''I'm looking the other way.''),
        s\<lparr>immunity_turns := immunity_turns s - 1\<rparr>)"
  by (simp add: decide_def)

theorem decide_immune_witness:
  "decide 3 0 (Some Bribe) ((InspectorAI_init (\<lambda>_ _. 1 / 2) 7 None)\<lparr>immunity_turns := 2\<rparr>) =
     ((DontInspect, False, Some ''I'm looking the other way.''),
      (InspectorAI_init (\<lambda>_ _. 1 / 2) 7 None)\<lparr>immunity_turns := 1\<rparr>)"
  using decide_immune [of "(InspectorAI_init (\<lambda>_ _. 1 / 2) 7 None)\<lparr>immunity_turns := 2\<rparr>"
      3 0 "Some Bribe"]
  by simp

subsection \<open>Frequency accessors\<close>

text \<open>
  C10.  On a freshly constructed instance the smuggle frequency is the default 0.3 and
  the cooperation frequency the default 0.5; with a non-empty history they are the
  ratios of the number of Smuggle entries, and of the number of LayLow, SignalTruce or
  Bribe entries, to the length of the history.
\<close>

theorem frequency_accessors:
  "get_smuggle_frequency (InspectorAI_init seeded seed l) = 3 / 10
   \<and> get_cooperation_frequency (InspectorAI_init seeded seed l) = 1 / 2
   \<and> (history_smuggler s \<noteq> [] \<longrightarrow>
        get_smuggle_frequency s =
          real (length (filter (\<lambda>a. a = Smuggle) (history_smuggler s)))
            / real (length (history_smuggler s))
      \<and> get_cooperation_frequency s =
          real (length (filter (\<lambda>a. a = LayLow \<or> a = SignalTruce \<or> a = Bribe)
                  (history_smuggler s)))
            / real (length (history_smuggler s)))"
  by (simp add: get_smuggle_frequency_def get_cooperation_frequency_def init_fields)

theorem frequency_accessors_witness:
  "history_smuggler
     (record_round LayLow Inspect False (record_round Bribe DontInspect False
       (record_round Smuggle Inspect True (InspectorAI_init (\<lambda>_ _. 1 / 2) 7 None)))) \<noteq> []
   \<and> get_smuggle_frequency
     (record_round LayLow Inspect False (record_round Bribe DontInspect False
       (record_round Smuggle Inspect True (InspectorAI_init (\<lambda>_ _. 1 / 2) 7 None)))) = 1 / 3
   \<and> get_cooperation_frequency
     (record_round LayLow Inspect False (record_round Bribe DontInspect False
       (record_round Smuggle Inspect True (InspectorAI_init (\<lambda>_ _. 1 / 2) 7 None)))) = 2 / 3"
  using frequency_accessors [of "\<lambda>_ _. 1 / 2" 7 None
      "record_round LayLow Inspect False (record_round Bribe DontInspect False
       (record_round Smuggle Inspect True (InspectorAI_init (\<lambda>_ _. 1 / 2) 7 None)))"]
  by (simp add: record_round_def init_fields)

subsection \<open>Phase logic and the pending deal\<close>

lemma draw_eq: "draw s = (rng s 0, s\<lparr>rng := \<lambda>n. rng s (Suc n)\<rparr>)"
  by (simp add: draw_def rng_random_def)

lemma draw_uniform_eq:
  "draw_uniform a b s = (a + (b - a) * rng s 0, s\<lparr>rng := \<lambda>n. rng s (Suc n)\<rparr>)"
  by (simp add: draw_uniform_def rng_uniform_def rng_random_def)

lemma early_same: "same_deal s (snd (early_game_decision r s))"
  by (simp add: early_game_decision_def draw_eq draw_uniform_eq same_deal_def Let_def)

lemma mid_std_same: "same_deal s (snd (mid_game_standard f s))"
  by (simp add: mid_game_standard_def draw_eq same_deal_def Let_def)

lemma mid_same: "same_deal s (snd (mid_game_decision r f c s))"
  using mid_std_same [of "s\<lparr>rng := \<lambda>n. rng s (Suc (Suc n))\<rparr>" f] mid_std_same [of s f]
  by (simp add: mid_game_decision_def draw_eq same_deal_def)

lemma late_fb_same: "same_deal s (snd (late_game_fallback r s))"
  by (simp add: late_game_fallback_def draw_eq same_deal_def Let_def)

lemma late_ex_same: "same_deal s (snd (late_game_exploit r f s))"
  using late_fb_same [of s r]
  by (simp add: late_game_exploit_def draw_eq same_deal_def)

lemma late_tr_same: "same_deal s (snd (late_game_trust r f s))"
  using late_ex_same [of s r f] late_ex_same [of "s\<lparr>rng := \<lambda>n. rng s (Suc n)\<rparr>" r f]
  by (simp add: late_game_trust_def draw_eq same_deal_def)

lemma late_same: "same_deal s (snd (late_game_decision r f c s))"
  using late_tr_same [of s r f] late_tr_same [of "s\<lparr>rng := \<lambda>n. rng s (Suc n)\<rparr>" r f]
  by (simp add: late_game_decision_def draw_eq same_deal_def detect_pattern_def Let_def split: option.splits)

lemma set_mood_same: "same_deal s (set_mood r f s)"
  by (simp add: set_mood_def draw_eq same_deal_def)

lemma update_trust_deal:
  "pending_deal (update_trust a s) = pending_deal s \<and> immunity_turns (update_trust a s) = immunity_turns s"
  by (simp add: update_trust_def split: option.splits)

lemma decide_phase_fields:
  "pending_deal (snd (decide_phase r a s)) = pending_deal s
   \<and> immunity_turns (snd (decide_phase r a s)) = immunity_turns s
   \<and> trust_level (snd (decide_phase r a s)) = trust_level (update_trust a s)"
proof -
  let ?f = "get_smuggle_frequency s"
  let ?c = "get_cooperation_frequency s"
  let ?s2 = "set_mood r ?f (update_trust a s)"
  have m: "same_deal (update_trust a s) ?s2" by (rule set_mood_same)
  have "same_deal ?s2 (snd (decide_phase r a s))"
    using early_same [of ?s2 r] mid_same [of ?s2 r ?f ?c] late_same [of ?s2 r ?f ?c]
    by (simp add: decide_phase_def Let_def)
  with m update_trust_deal [of a s] show ?thesis
    by (simp add: same_deal_def)
qed

lemma llm_or_fallback_fields:
  "pending_deal (snd (llm_or_fallback fb s)) = pending_deal s
   \<and> immunity_turns (snd (llm_or_fallback fb s)) = immunity_turns s
   \<and> trust_level (snd (llm_or_fallback fb s)) = trust_level s"
  by (simp add: llm_or_fallback_def Let_def split: option.splits)

lemma handle_bribe_eq:
  "handle_bribe r sc s =
    (if rng s 0 < greed s + trust_level s * (2 / 10) - (if r > 14 then 15 / 100 else 0) then
       (if rng s 1 < deceptiveness s * (1 / 2) then
          (case get_bribe_response True False
                  (s\<lparr>history_bribes_offered := history_bribes_offered s + 1,
                     history_bribes_accepted := history_bribes_accepted s + 1,
                     rng := \<lambda>n. rng s (Suc (Suc n)), pending_deal := Some Trap\<rparr>) of
             (response, t) \<Rightarrow> ((True, response), t))
        else
          (case get_bribe_response True True
                  (s\<lparr>history_bribes_offered := history_bribes_offered s + 1,
                     history_bribes_accepted := history_bribes_accepted s + 1,
                     rng := \<lambda>n. rng s (Suc (Suc n)), pending_deal := Some Accepted\<rparr>) of
             (response, t) \<Rightarrow> ((True, response), t\<lparr>immunity_turns := 2, pending_deal := Some Safe\<rparr>)))
     else
       (case get_bribe_response False False
               (s\<lparr>history_bribes_offered := history_bribes_offered s + 1,
                  rng := \<lambda>n. rng s (Suc n)\<rparr>) of
          (response, t) \<Rightarrow> ((False, response), t)))"
  by (simp add: handle_bribe_def draw_eq Let_def MID_GAME_END_def split: prod.splits)

lemma get_bribe_response_fields:
  "pending_deal (snd (get_bribe_response x y s)) = pending_deal s"
  "immunity_turns (snd (get_bribe_response x y s)) = immunity_turns s"
  "trust_level (snd (get_bribe_response x y s)) = trust_level s"
  using llm_or_fallback_fields by (simp_all add: get_bribe_response_def)

lemma handle_bribe_pending:
  "pending_deal (snd (handle_bribe r sc s)) \<in> {Some Trap, Some Safe, pending_deal s}"
  by (simp add: handle_bribe_eq get_bribe_response_fields case_prod_beta)

lemma handle_truce_pending:
  "pending_deal (snd (handle_truce_signal s)) = pending_deal s"
  using llm_or_fallback_fields
  by (simp add: handle_truce_signal_def get_truce_response_def Let_def)

text \<open>
  C1.  With the trap sentinel pending and no immunity, \<open>decide\<close> does not
  consult the sentinel: it runs the trust update and the phase logic and leaves the
  sentinel pending.  The round driver's override, applied to the result of that call,
  forces the action Inspect, flags the trap, and resets the pending deal to None.
\<close>

theorem decide_pending_trap:
  assumes "pending_deal s = Some Trap" and "immunity_turns s = 0"
  shows "decide r sc a s = decide_phase r a s
     \<and> pending_deal (snd (decide r sc a s)) = Some Trap
     \<and> bribe_override b (fst (fst (decide r sc a s))) (snd (decide r sc a s)) =
         ((Inspect, True), (snd (decide r sc a s))\<lparr>pending_deal := None\<rparr>)"
proof -
  have d: "decide r sc a s = decide_phase r a s"
    using assms by (simp add: decide_def)
  have p: "pending_deal (snd (decide r sc a s)) = Some Trap"
    using decide_phase_fields [of r a s] assms d by simp
  show ?thesis using d p by (simp add: bribe_override_def)
qed

lemma decide_pending:
  "pending_deal (snd (decide r sc a s)) =
     (if immunity_turns s \<le> 0 \<and> pending_deal s = Some Accepted then None else pending_deal s)"
  using decide_phase_fields [of r a s]
  by (simp add: decide_def draw_eq record_honesty_def Let_def)

lemma with_deal_fields [simp]:
  "rng (with_deal p s) = rng s"
  "trust_level (with_deal p s) = trust_level s"
  "pending_deal (with_deal p s) = p"
  "immunity_turns (with_deal p s) = immunity_turns s"
  "consecutive_passive_rounds (with_deal p s) = consecutive_passive_rounds s"
  "deceptiveness (with_deal p s) = deceptiveness s"
  "adaptiveness (with_deal p s) = adaptiveness s"
  "history_smuggler (with_deal p s) = history_smuggler s"
  "history_traps_set (with_deal p s) = history_traps_set s"
  by (simp_all add: with_deal_def)

lemma with_deal_updates [simp]:
  "(with_deal p s)\<lparr>rng := g\<rparr> = with_deal p (s\<lparr>rng := g\<rparr>)"
  "(with_deal p s)\<lparr>mood := m\<rparr> = with_deal p (s\<lparr>mood := m\<rparr>)"
  "(with_deal p s)\<lparr>trust_level := t\<rparr> = with_deal p (s\<lparr>trust_level := t\<rparr>)"
  "(with_deal p s)\<lparr>immunity_turns := i\<rparr> = with_deal p (s\<lparr>immunity_turns := i\<rparr>)"
  "(with_deal p s)\<lparr>consecutive_passive_rounds := c\<rparr> =
     with_deal p (s\<lparr>consecutive_passive_rounds := c\<rparr>)"
  "(with_deal p s)\<lparr>history_traps_set := k\<rparr> = with_deal p (s\<lparr>history_traps_set := k\<rparr>)"
  by (simp_all add: with_deal_def)

lemma early_deal:
  "early_game_decision r (with_deal p s) =
     (fst (early_game_decision r s), with_deal p (snd (early_game_decision r s)))"
  by (simp add: early_game_decision_def draw_eq draw_uniform_eq Let_def)

lemma mid_std_deal:
  "mid_game_standard f (with_deal p s) =
     (fst (mid_game_standard f s), with_deal p (snd (mid_game_standard f s)))"
  by (simp add: mid_game_standard_def draw_eq Let_def)

lemma mid_deal:
  "mid_game_decision r f c (with_deal p s) =
     (fst (mid_game_decision r f c s), with_deal p (snd (mid_game_decision r f c s)))"
  by (simp add: mid_game_decision_def draw_eq mid_std_deal)

lemma late_fb_deal:
  "late_game_fallback r (with_deal p s) =
     (fst (late_game_fallback r s), with_deal p (snd (late_game_fallback r s)))"
  by (simp add: late_game_fallback_def draw_eq Let_def)

lemma late_ex_deal:
  "late_game_exploit r f (with_deal p s) =
     (fst (late_game_exploit r f s), with_deal p (snd (late_game_exploit r f s)))"
  by (simp add: late_game_exploit_def draw_eq late_fb_deal)

lemma late_tr_deal:
  "late_game_trust r f (with_deal p s) =
     (fst (late_game_trust r f s), with_deal p (snd (late_game_trust r f s)))"
  by (simp add: late_game_trust_def draw_eq late_ex_deal)

lemma detect_deal: "detect_pattern (with_deal p s) = detect_pattern s"
  by (simp add: detect_pattern_def)

lemma late_deal:
  "late_game_decision r f c (with_deal p s) =
     (fst (late_game_decision r f c s), with_deal p (snd (late_game_decision r f c s)))"
  by (simp add: late_game_decision_def draw_eq late_tr_deal detect_deal split: option.splits)

lemma update_trust_with_deal: "update_trust a (with_deal p s) = with_deal p (update_trust a s)"
  by (simp add: update_trust_def split: option.splits)

lemma set_mood_deal: "set_mood r f (with_deal p s) = with_deal p (set_mood r f s)"
  by (simp add: set_mood_def draw_eq)

lemma freq_deal:
  "get_smuggle_frequency (with_deal p s) = get_smuggle_frequency s"
  "get_cooperation_frequency (with_deal p s) = get_cooperation_frequency s"
  by (simp_all add: get_smuggle_frequency_def get_cooperation_frequency_def)

lemma decide_phase_deal:
  "decide_phase r a (with_deal p s) =
     (fst (decide_phase r a s), with_deal p (snd (decide_phase r a s)))"
  by (simp add: decide_phase_def Let_def freq_deal update_trust_with_deal set_mood_deal
      early_deal mid_deal late_deal)

lemma decide_deal:
  assumes "p \<noteq> Some Accepted" and "q \<noteq> Some Accepted"
  shows "decide r sc a (with_deal p s) =
     (fst (decide r sc a (with_deal q s)), with_deal p (snd (decide r sc a (with_deal q s))))"
proof -
  have w: "with_deal p (with_deal q t) = with_deal p t" for t
    by (simp add: with_deal_def)
  show ?thesis using assms
    by (simp add: decide_def decide_phase_deal w)
qed

text \<open>
  C9.  The decision block of a round never ends with the trap sentinel pending: the
  driver's override after \<open>decide\<close> clears it.  It never ends with the legacy accepted
  value pending unless it started with it.  The pending deal after \<open>decide\<close> is None when
  the legacy accepted value was pending and there was no immunity, and is the pending
  deal before the call in every other case: under immunity the legacy value stays, and
  the trap sentinel and the safe grant always stay.  Every pending deal other than the
  legacy accepted value is inert in \<open>decide\<close>: the call returns the decision it returns
  with no deal pending, and the resulting states differ in the pending deal only.
\<close>

theorem pending_deal_lifecycle:
  "pending_deal (snd (resolve_round r sc la pa s)) \<noteq> Some Trap
   \<and> (pending_deal s \<noteq> Some Accepted \<longrightarrow>
        pending_deal (snd (resolve_round r sc la pa s)) \<noteq> Some Accepted)
   \<and> pending_deal (snd (decide r sc la s)) =
        (if immunity_turns s \<le> 0 \<and> pending_deal s = Some Accepted then None
         else pending_deal s)
   \<and> (p \<noteq> Some Accepted \<longrightarrow>
        decide r sc la (s\<lparr>pending_deal := p\<rparr>) =
          (fst (decide r sc la (s\<lparr>pending_deal := None\<rparr>)),
           (snd (decide r sc la (s\<lparr>pending_deal := None\<rparr>)))\<lparr>pending_deal := p\<rparr>))"
proof -
  define pre where "pre =
     (if pa = Bribe then
             (case handle_bribe r sc s of ((acc, response), t) \<Rightarrow> (acc, t))
           else if pa = SignalTruce then
             (case handle_truce_signal s of (response, t) \<Rightarrow> (False, t))
           else (False, s))"
  define s2 where "s2 = snd (decide r sc la (snd pre))"
  define act where "act = fst (fst (decide r sc la (snd pre)))"
  have rr: "snd (resolve_round r sc la pa s) = snd (bribe_override (fst pre) act s2)"
    by (simp add: resolve_round_def pre_def s2_def act_def split: prod.splits)
  have o1: "pending_deal (snd (bribe_override (fst pre) act s2)) \<noteq> Some Trap"
    by (simp add: bribe_override_def)
  have o2: "pending_deal (snd (bribe_override (fst pre) act s2)) \<in> {None, pending_deal s2}"
    by (simp add: bribe_override_def)
  have p1: "pending_deal (snd pre) \<in> {Some Trap, Some Safe, pending_deal s}"
    using handle_bribe_pending [of r sc s] handle_truce_pending [of s]
    by (auto simp add: pre_def split: prod.splits)
  have p2: "pending_deal s2 \<in> {None, pending_deal (snd pre)}"
    by (simp add: s2_def decide_pending)
  have a: "pending_deal s \<noteq> Some Accepted \<longrightarrow>
        pending_deal (snd (resolve_round r sc la pa s)) \<noteq> Some Accepted"
    using o2 p1 p2 unfolding rr by auto
  have inert: "p \<noteq> Some Accepted \<longrightarrow>
        decide r sc la (s\<lparr>pending_deal := p\<rparr>) =
          (fst (decide r sc la (s\<lparr>pending_deal := None\<rparr>)),
           (snd (decide r sc la (s\<lparr>pending_deal := None\<rparr>)))\<lparr>pending_deal := p\<rparr>)"
    using decide_deal [of p None r sc la s] by (simp add: with_deal_def)
  have eq: "pending_deal (snd (decide r sc la s)) =
        (if immunity_turns s \<le> 0 \<and> pending_deal s = Some Accepted then None
         else pending_deal s)"
    by (rule decide_pending)
  show ?thesis using a o1 rr inert eq by simp
qed

subsection \<open>Pattern detector\<close>

text \<open>
  The history Smuggle, LayLow, Smuggle, Bribe alternates and ends with a Bribe, which is
  neither Smuggle nor passive; the detector recommends DontInspect for it rather than
  nothing.
\<close>

theorem detect_pattern_bribe_counterexample:
  "detect_pattern ((InspectorAI_init (\<lambda>_ _. 1 / 2) 7 None)
      \<lparr>history_smuggler := [Smuggle, LayLow, Smuggle, Bribe]\<rparr>) = Some DontInspect
   \<and> last [Smuggle, LayLow, Smuggle, Bribe] \<noteq> Smuggle
   \<and> \<not> is_passive (last [Smuggle, LayLow, Smuggle, Bribe])"
  by (simp add: detect_pattern_def last_n_def is_passive_def Let_def)

lemma last_n_3: "last_n 3 (pre @ [a, b, c]) = [a, b, c]"
  by (simp add: last_n_def)

lemma last_n_4: "last_n 4 (pre @ [z, a, b, c]) = [z, a, b, c]"
  by (simp add: last_n_def)

text \<open>
  C6.  The detector returns nothing for a history shorter than 3.  Otherwise,
  with \<open>a, b, c\<close> the last three actions, it checks in this order: all three Smuggle,
  recommend Inspect; all three passive (LayLow or SignalTruce), recommend DontInspect;
  a fourth-last action exists and the last four differ at every adjacent position,
  recommend Inspect when the most recent action is passive and DontInspect when it is not
  (Smuggle or Bribe); else nothing.
\<close>

theorem detect_pattern_cases:
  "(length (history_smuggler s) < 3 \<longrightarrow> detect_pattern s = None)
   \<and> (history_smuggler s = pre @ [a, b, c] \<longrightarrow>
        detect_pattern s =
          (if a = Smuggle \<and> b = Smuggle \<and> c = Smuggle then Some Inspect
           else if is_passive a \<and> is_passive b \<and> is_passive c then Some DontInspect
           else if pre \<noteq> [] \<and> last pre \<noteq> a \<and> a \<noteq> b \<and> b \<noteq> c then
             (if is_passive c then Some Inspect else Some DontInspect)
           else None))"
proof (intro conjI impI)
  assume "length (history_smuggler s) < 3"
  then show "detect_pattern s = None" by (simp add: detect_pattern_def Let_def)
next
  assume h: "history_smuggler s = pre @ [a, b, c]"
  show "detect_pattern s =
          (if a = Smuggle \<and> b = Smuggle \<and> c = Smuggle then Some Inspect
           else if is_passive a \<and> is_passive b \<and> is_passive c then Some DontInspect
           else if pre \<noteq> [] \<and> last pre \<noteq> a \<and> a \<noteq> b \<and> b \<noteq> c then
             (if is_passive c then Some Inspect else Some DontInspect)
           else None)"
  proof (cases pre rule: rev_cases)
    case Nil
    with h show ?thesis
      by (simp add: detect_pattern_def Let_def last_n_def)
  next
    case (snoc pre' z)
    with h have h4: "history_smuggler s = pre' @ [z, a, b, c]" by simp
    have l3: "last_n 3 (pre' @ [z, a, b, c]) = [a, b, c]"
      using last_n_3 [of "pre' @ [z]" a b c] by simp
    show ?thesis using snoc
      by (simp add: detect_pattern_def Let_def h4 l3 last_n_4)
  qed
qed

subsection \<open>Trust invariant and immunity grant\<close>

lemma update_trust_bounded: "trust_bounded s \<Longrightarrow> trust_bounded (update_trust a s)"
  by (auto simp add: update_trust_def trust_bounded_def split: option.splits)

lemma decide_trust:
  "trust_level (snd (decide r sc a s)) =
     (if immunity_turns s > 0 \<or> pending_deal s = Some Accepted then trust_level s
      else trust_level (update_trust a s))"
  using decide_phase_fields [of r a s]
  by (simp add: decide_def draw_eq record_honesty_def Let_def)

text \<open>
  C8.  The trust update leaves the state alone for a missing last action; Smuggle lowers
  the trust level by 0.1, clamped at 0, and resets the passive counter; LayLow and
  SignalTruce raise it by 0.05, clamped at 1, and increment the passive counter; Bribe
  raises it by 0.02, clamped at 1, and resets the passive counter.  The trust level after
  a \<open>decide\<close> call is that of the update applied to the last action, except under
  immunity and on the legacy accepted-deal path, where it is unchanged.
\<close>

theorem update_trust_cases:
  "update_trust None s = s
   \<and> update_trust (Some Smuggle) s =
       s\<lparr>trust_level := max 0 (trust_level s - 1 / 10), consecutive_passive_rounds := 0\<rparr>
   \<and> update_trust (Some LayLow) s =
       s\<lparr>trust_level := min 1 (trust_level s + 5 / 100),
         consecutive_passive_rounds := consecutive_passive_rounds s + 1\<rparr>
   \<and> update_trust (Some SignalTruce) s =
       s\<lparr>trust_level := min 1 (trust_level s + 5 / 100),
         consecutive_passive_rounds := consecutive_passive_rounds s + 1\<rparr>
   \<and> update_trust (Some Bribe) s =
       s\<lparr>trust_level := min 1 (trust_level s + 2 / 100), consecutive_passive_rounds := 0\<rparr>
   \<and> trust_level (snd (decide r sc a s)) =
       (if immunity_turns s > 0 \<or> pending_deal s = Some Accepted then trust_level s
        else trust_level (update_trust a s))"
  using decide_trust [of r sc a s] by (simp add: update_trust_def)

lemma decide_bounded: "trust_bounded s \<Longrightarrow> trust_bounded (snd (decide r sc a s))"
  using update_trust_bounded [of s a] by (simp add: trust_bounded_def decide_trust)

lemma handle_bribe_trust: "trust_level (snd (handle_bribe r sc s)) = trust_level s"
  by (simp add: handle_bribe_eq get_bribe_response_fields case_prod_beta)

lemma handle_truce_bounded:
  "trust_bounded s \<Longrightarrow> trust_bounded (snd (handle_truce_signal s))"
  using llm_or_fallback_fields
  by (simp add: handle_truce_signal_def get_truce_response_def Let_def trust_bounded_def)

lemma record_round_trust: "trust_level (record_round pa ia t s) = trust_level s"
  by (simp add: record_round_def Let_def)

lemma perform_bounded: "trust_bounded s \<Longrightarrow> trust_bounded (snd (perform c s))"
proof (cases c)
  case (Decide r sc a)
  assume "trust_bounded s"
  then show ?thesis using Decide decide_bounded [of s r sc a]
    by (simp add: case_prod_beta)
next
  case (HandleBribe r sc)
  assume "trust_bounded s"
  then show ?thesis using HandleBribe handle_bribe_trust [of r sc s]
    by (simp add: case_prod_beta trust_bounded_def)
next
  case HandleTruce
  assume "trust_bounded s"
  then show ?thesis using HandleTruce handle_truce_bounded [of s]
    by (simp add: case_prod_beta)
next
  case (RecordRound pa ia t)
  assume "trust_bounded s"
  then show ?thesis using RecordRound
    by (simp add: trust_bounded_def record_round_trust)
next
  case (UpdateTrust a)
  assume "trust_bounded s"
  then show ?thesis using UpdateTrust update_trust_bounded [of s a] by simp
qed

lemma run_bounded: "trust_bounded s \<Longrightarrow> trust_bounded (snd (run cs s))"
proof (induction cs arbitrary: s)
  case Nil
  then show ?case by simp
next
  case (Cons c cs)
  have "trust_bounded (snd (perform c s))"
    using Cons.prems by (rule perform_bounded)
  then have "trust_bounded (snd (run cs (snd (perform c s))))"
    by (rule Cons.IH)
  then show ?case by (simp add: case_prod_beta)
qed

text \<open>
  C3.  A fresh instance has trust level 0.5, and after any sequence of calls of
  \<open>decide\<close>, \<open>handle_bribe\<close>, \<open>handle_truce_signal\<close>, \<open>record_round\<close> and the trust
  update, the trust level lies in the unit interval.
\<close>

theorem trust_level_in_unit_interval:
  "trust_level (InspectorAI_init seeded seed l) = 1 / 2
   \<and> 0 \<le> trust_level (snd (run calls (InspectorAI_init seeded seed l)))
   \<and> trust_level (snd (run calls (InspectorAI_init seeded seed l))) \<le> 1"
  using run_bounded [of "InspectorAI_init seeded seed l" calls]
  by (simp add: trust_bounded_def init_fields)

text \<open>
  C5.  When \<open>handle_bribe\<close> accepts (its first draw is below the acceptance
  probability) and honours (its second draw is not below half the deceptiveness), it
  reports acceptance, sets the immunity counter to 2 and the pending deal to the safe
  grant; the next two \<open>decide\<close> calls return DontInspect with the fixed line and use up
  one immunity turn each; the third call is not forced: it is the phase logic.
\<close>

theorem honoured_bribe_immunity:
  assumes accept:
      "rng s 0 < greed s + trust_level s * (2 / 10) - (if r > 14 then 15 / 100 else 0)"
    and honour: "\<not> rng s 1 < deceptiveness s * (1 / 2)"
    and s1: "s1 = snd (handle_bribe r sc s)"
  shows "fst (fst (handle_bribe r sc s)) = True
     \<and> immunity_turns s1 = 2 \<and> pending_deal s1 = Some Safe
     \<and> decide r1 sc1 a1 s1 =
         ((DontInspect, False, Some ''I'm looking the other way.''), s1\<lparr>immunity_turns := 1\<rparr>)
     \<and> decide r2 sc2 a2 (s1\<lparr>immunity_turns := 1\<rparr>) =
         ((DontInspect, False, Some ''I'm looking the other way.''), s1\<lparr>immunity_turns := 0\<rparr>)
     \<and> decide r3 sc3 a3 (s1\<lparr>immunity_turns := 0\<rparr>) =
         decide_phase r3 a3 (s1\<lparr>immunity_turns := 0\<rparr>)"
proof -
  have i: "immunity_turns s1 = 2" and p: "pending_deal s1 = Some Safe"
    and acc: "fst (fst (handle_bribe r sc s)) = True"
    using accept honour unfolding s1
    by (simp_all add: handle_bribe_eq case_prod_beta)
  have d1: "decide r1 sc1 a1 s1 =
         ((DontInspect, False, Some ''I'm looking the other way.''), s1\<lparr>immunity_turns := 1\<rparr>)"
    using i by (simp add: decide_def)
  have d2: "decide r2 sc2 a2 (s1\<lparr>immunity_turns := 1\<rparr>) =
         ((DontInspect, False, Some ''I'm looking the other way.''), s1\<lparr>immunity_turns := 0\<rparr>)"
    by (simp add: decide_def)
  have d3: "decide r3 sc3 a3 (s1\<lparr>immunity_turns := 0\<rparr>) =
         decide_phase r3 a3 (s1\<lparr>immunity_turns := 0\<rparr>)"
    using p by (simp add: decide_def)
  show ?thesis using i p acc d1 d2 d3 by simp
qed

subsection \<open>Independence from the dialogue collaborator\<close>

lemma without_llm_fields [simp]:
  "rng (without_llm s) = rng s"
  "trust_level (without_llm s) = trust_level s"
  "pending_deal (without_llm s) = pending_deal s"
  "immunity_turns (without_llm s) = immunity_turns s"
  "consecutive_passive_rounds (without_llm s) = consecutive_passive_rounds s"
  "greed (without_llm s) = greed s"
  "deceptiveness (without_llm s) = deceptiveness s"
  "adaptiveness (without_llm s) = adaptiveness s"
  "history_smuggler (without_llm s) = history_smuggler s"
  "history_inspector (without_llm s) = history_inspector s"
  "history_traps_set (without_llm s) = history_traps_set s"
  "history_traps_sprung (without_llm s) = history_traps_sprung s"
  "history_bribes_offered (without_llm s) = history_bribes_offered s"
  "history_bribes_accepted (without_llm s) = history_bribes_accepted s"
  "history_truces_signaled (without_llm s) = history_truces_signaled s"
  "honesty_streak (without_llm s) = honesty_streak s"
  "betrayal_count (without_llm s) = betrayal_count s"
  "llm (without_llm s) = None"
  by (simp_all add: without_llm_def)

lemma without_llm_updates [simp]:
  "(without_llm s)\<lparr>rng := g\<rparr> = without_llm (s\<lparr>rng := g\<rparr>)"
  "(without_llm s)\<lparr>mood := m\<rparr> = without_llm (s\<lparr>mood := m\<rparr>)"
  "(without_llm s)\<lparr>trust_level := t\<rparr> = without_llm (s\<lparr>trust_level := t\<rparr>)"
  "(without_llm s)\<lparr>pending_deal := p\<rparr> = without_llm (s\<lparr>pending_deal := p\<rparr>)"
  "(without_llm s)\<lparr>immunity_turns := i\<rparr> = without_llm (s\<lparr>immunity_turns := i\<rparr>)"
  "(without_llm s)\<lparr>consecutive_passive_rounds := c\<rparr> =
     without_llm (s\<lparr>consecutive_passive_rounds := c\<rparr>)"
  "(without_llm s)\<lparr>history_smuggler := hs\<rparr> = without_llm (s\<lparr>history_smuggler := hs\<rparr>)"
  "(without_llm s)\<lparr>history_inspector := hi\<rparr> = without_llm (s\<lparr>history_inspector := hi\<rparr>)"
  "(without_llm s)\<lparr>history_traps_set := k\<rparr> = without_llm (s\<lparr>history_traps_set := k\<rparr>)"
  "(without_llm s)\<lparr>history_traps_sprung := k\<rparr> = without_llm (s\<lparr>history_traps_sprung := k\<rparr>)"
  "(without_llm s)\<lparr>history_bribes_offered := k\<rparr> =
     without_llm (s\<lparr>history_bribes_offered := k\<rparr>)"
  "(without_llm s)\<lparr>history_bribes_accepted := k\<rparr> =
     without_llm (s\<lparr>history_bribes_accepted := k\<rparr>)"
  "(without_llm s)\<lparr>history_truces_signaled := k\<rparr> =
     without_llm (s\<lparr>history_truces_signaled := k\<rparr>)"
  "(without_llm s)\<lparr>honesty_streak := k\<rparr> = without_llm (s\<lparr>honesty_streak := k\<rparr>)"
  "(without_llm s)\<lparr>betrayal_count := k\<rparr> = without_llm (s\<lparr>betrayal_count := k\<rparr>)"
  by (simp_all add: without_llm_def)

lemma without_llm_idem [simp]: "without_llm (without_llm s) = without_llm s"
  by (simp add: without_llm_def)

lemma early_llm:
  "early_game_decision r (without_llm s) =
     (fst (early_game_decision r s), without_llm (snd (early_game_decision r s)))"
  by (simp add: early_game_decision_def draw_eq draw_uniform_eq Let_def)

lemma mid_std_llm:
  "mid_game_standard f (without_llm s) =
     (fst (mid_game_standard f s), without_llm (snd (mid_game_standard f s)))"
  by (simp add: mid_game_standard_def draw_eq Let_def)

lemma mid_llm:
  "mid_game_decision r f c (without_llm s) =
     (fst (mid_game_decision r f c s), without_llm (snd (mid_game_decision r f c s)))"
  by (simp add: mid_game_decision_def draw_eq mid_std_llm)

lemma late_fb_llm:
  "late_game_fallback r (without_llm s) =
     (fst (late_game_fallback r s), without_llm (snd (late_game_fallback r s)))"
  by (simp add: late_game_fallback_def draw_eq Let_def)

lemma late_ex_llm:
  "late_game_exploit r f (without_llm s) =
     (fst (late_game_exploit r f s), without_llm (snd (late_game_exploit r f s)))"
  by (simp add: late_game_exploit_def draw_eq late_fb_llm)

lemma late_tr_llm:
  "late_game_trust r f (without_llm s) =
     (fst (late_game_trust r f s), without_llm (snd (late_game_trust r f s)))"
  by (simp add: late_game_trust_def draw_eq late_ex_llm)

lemma detect_llm: "detect_pattern (without_llm s) = detect_pattern s"
  by (simp add: detect_pattern_def)

lemma late_llm:
  "late_game_decision r f c (without_llm s) =
     (fst (late_game_decision r f c s), without_llm (snd (late_game_decision r f c s)))"
  by (simp add: late_game_decision_def draw_eq late_tr_llm detect_llm split: option.splits)

lemma update_trust_llm: "update_trust a (without_llm s) = without_llm (update_trust a s)"
  by (simp add: update_trust_def split: option.splits)

lemma set_mood_llm: "set_mood r f (without_llm s) = without_llm (set_mood r f s)"
  by (simp add: set_mood_def draw_eq)

lemma freq_llm:
  "get_smuggle_frequency (without_llm s) = get_smuggle_frequency s"
  "get_cooperation_frequency (without_llm s) = get_cooperation_frequency s"
  by (simp_all add: get_smuggle_frequency_def get_cooperation_frequency_def)

lemma decide_phase_llm:
  "decide_phase r a (without_llm s) =
     (fst (decide_phase r a s), without_llm (snd (decide_phase r a s)))"
  by (simp add: decide_phase_def Let_def freq_llm update_trust_llm set_mood_llm
      early_llm mid_llm late_llm)

lemma decide_llm:
  "decide r sc a (without_llm s) =
     (fst (decide r sc a s), without_llm (snd (decide r sc a s)))"
  by (simp add: decide_def draw_eq record_honesty_def Let_def decide_phase_llm)

lemma llm_or_fallback_off:
  "llm_or_fallback fb (without_llm s) = (fb, without_llm s)"
  by (simp add: llm_or_fallback_def)

lemma llm_or_fallback_erase:
  "without_llm (snd (llm_or_fallback fb s)) = without_llm s"
  by (simp add: llm_or_fallback_def without_llm_def Let_def split: option.splits)

lemma llm_or_fallback_erase_grant:
  "without_llm ((snd (llm_or_fallback fb s))\<lparr>immunity_turns := i, pending_deal := p\<rparr>) =
     without_llm (s\<lparr>immunity_turns := i, pending_deal := p\<rparr>)"
  by (simp add: llm_or_fallback_def without_llm_def Let_def split: option.splits)

lemma handle_bribe_llm:
  "fst (fst (handle_bribe r sc (without_llm s))) = fst (fst (handle_bribe r sc s))
   \<and> snd (handle_bribe r sc (without_llm s)) = without_llm (snd (handle_bribe r sc s))"
  by (simp add: handle_bribe_eq get_bribe_response_def llm_or_fallback_off case_prod_beta
      llm_or_fallback_erase llm_or_fallback_erase_grant)

lemma handle_truce_llm:
  "snd (handle_truce_signal (without_llm s)) = without_llm (snd (handle_truce_signal s))"
  using llm_or_fallback_erase
  by (simp add: handle_truce_signal_def get_truce_response_def llm_or_fallback_off Let_def)

lemma record_round_llm:
  "record_round pa ia t (without_llm s) = without_llm (record_round pa ia t s)"
  by (simp add: record_round_def Let_def)

lemma perform_llm:
  "observe (fst (perform c (without_llm s))) = observe (fst (perform c s))
   \<and> snd (perform c (without_llm s)) = without_llm (snd (perform c s))"
proof (cases c)
  case (Decide r sc a)
  then show ?thesis by (simp add: decide_llm case_prod_beta)
next
  case (HandleBribe r sc)
  then show ?thesis using handle_bribe_llm [of r sc s] by (simp add: case_prod_beta)
next
  case HandleTruce
  then show ?thesis using handle_truce_llm [of s] by (simp add: case_prod_beta)
next
  case (RecordRound pa ia t)
  then show ?thesis by (simp add: record_round_llm)
next
  case (UpdateTrust a)
  then show ?thesis by (simp add: update_trust_llm)
qed

lemma run_llm:
  "map observe (fst (run cs (without_llm s))) = map observe (fst (run cs s))
   \<and> snd (run cs (without_llm s)) = without_llm (snd (run cs s))"
proof (induction cs arbitrary: s)
  case Nil
  show ?case by simp
next
  case (Cons c cs)
  show ?case
    using perform_llm [of c s] Cons.IH [of "snd (perform c s)"]
    by (simp add: case_prod_beta)
qed

lemma init_llm:
  "without_llm (InspectorAI_init seeded seed l) = InspectorAI_init seeded seed None"
  by (simp add: InspectorAI_init_def draw_uniform_eq without_llm_def Let_def)

text \<open>
  C4.  Two instances constructed from the same generator with the same seed have the
  same traits and, driven by the same sequence of calls, return the same decisions and
  the same bribe acceptances, whatever dialogue collaborators are attached to them.
\<close>

theorem same_seed_same_decisions:
  "greed (InspectorAI_init seeded seed l1) = greed (InspectorAI_init seeded seed l2)
   \<and> deceptiveness (InspectorAI_init seeded seed l1) = deceptiveness (InspectorAI_init seeded seed l2)
   \<and> adaptiveness (InspectorAI_init seeded seed l1) = adaptiveness (InspectorAI_init seeded seed l2)
   \<and> map observe (fst (run calls (InspectorAI_init seeded seed l1))) =
       map observe (fst (run calls (InspectorAI_init seeded seed l2)))"
proof -
  have "map observe (fst (run calls (InspectorAI_init seeded seed l1))) =
        map observe (fst (run calls (InspectorAI_init seeded seed None)))"
    using run_llm [of calls "InspectorAI_init seeded seed l1"] by (simp add: init_llm)
  moreover have "map observe (fst (run calls (InspectorAI_init seeded seed l2))) =
        map observe (fst (run calls (InspectorAI_init seeded seed None)))"
    using run_llm [of calls "InspectorAI_init seeded seed l2"] by (simp add: init_llm)
  ultimately show ?thesis by (simp add: init_fields)
qed

subsection \<open>Concrete runs\<close>

lemmas eval_defs = handle_bribe_eq init_fields scripted_random_def get_bribe_response_def
  llm_or_fallback_def decide_def decide_phase_def early_game_decision_def draw_eq
  draw_uniform_eq set_mood_def update_trust_def get_smuggle_frequency_def
  get_cooperation_frequency_def game_constants Let_def case_prod_beta bribe_override_def

text \<open>
  After a bribe that is accepted and betrayed the pending deal is the trap sentinel and
  there is no immunity; the following \<open>decide\<close> call runs the early-game logic, here
  returning DontInspect without bait, and leaves the sentinel in place.
\<close>

theorem decide_ignores_trap_counterexample:
  "pending_deal (snd (handle_bribe 1 0
      (InspectorAI_init (scripted_random [1/10, 1/10, 1/10, 1/10, 1/10] (9/10)) 7 None))) = Some Trap
   \<and> immunity_turns (snd (handle_bribe 1 0
      (InspectorAI_init (scripted_random [1/10, 1/10, 1/10, 1/10, 1/10] (9/10)) 7 None))) = 0
   \<and> fst (decide 1 0 None (snd (handle_bribe 1 0
      (InspectorAI_init (scripted_random [1/10, 1/10, 1/10, 1/10, 1/10] (9/10)) 7 None))))
       = (DontInspect, False, None)
   \<and> pending_deal (snd (decide 1 0 None (snd (handle_bribe 1 0
      (InspectorAI_init (scripted_random [1/10, 1/10, 1/10, 1/10, 1/10] (9/10)) 7 None)))))
       = Some Trap"
  by (simp add: eval_defs)

theorem decide_pending_trap_witness:
  "pending_deal (snd (handle_bribe 1 0 (InspectorAI_init (scripted_random [] (1/10)) 7 None)))
     = Some Trap
   \<and> immunity_turns (snd (handle_bribe 1 0 (InspectorAI_init (scripted_random [] (1/10)) 7 None)))
     = 0
   \<and> fst (bribe_override True
        (fst (fst (decide 1 0 None
           (snd (handle_bribe 1 0 (InspectorAI_init (scripted_random [] (1/10)) 7 None))))))
        (snd (decide 1 0 None
           (snd (handle_bribe 1 0 (InspectorAI_init (scripted_random [] (1/10)) 7 None))))))
     = (Inspect, True)"
proof -
  let ?s = "snd (handle_bribe 1 0 (InspectorAI_init (scripted_random [] (1/10)) 7 None))"
  have p: "pending_deal ?s = Some Trap"
    by (simp add: handle_bribe_eq init_fields scripted_random_def get_bribe_response_def
        llm_or_fallback_def case_prod_beta)
  have i: "immunity_turns ?s = 0"
    by (simp add: handle_bribe_eq init_fields scripted_random_def get_bribe_response_def
        llm_or_fallback_def case_prod_beta)
  have "bribe_override True (fst (fst (decide 1 0 None ?s))) (snd (decide 1 0 None ?s)) =
          ((Inspect, True), (snd (decide 1 0 None ?s))\<lparr>pending_deal := None\<rparr>)"
    using decide_pending_trap [OF p i, of 1 0 None True] by blast
  then have "fst (bribe_override True (fst (fst (decide 1 0 None ?s)))
               (snd (decide 1 0 None ?s))) = (Inspect, True)"
    by (simp only: fst_conv)
  with p i show ?thesis by blast
qed

text \<open>
  Through the interface alone the trap sentinel survives the \<open>decide\<close> calls that read
  it: it is still pending after the call of the same round and after the call of the
  next round.
\<close>

theorem trap_persists_counterexample:
  "immunity_turns (snd (run [HandleBribe 1 0]
      (InspectorAI_init (scripted_random [] (1/10)) 7 None))) = 0
   \<and> pending_deal (snd (run [HandleBribe 1 0]
      (InspectorAI_init (scripted_random [] (1/10)) 7 None))) = Some Trap
   \<and> pending_deal (snd (run [HandleBribe 1 0, Decide 1 0 None]
      (InspectorAI_init (scripted_random [] (1/10)) 7 None))) = Some Trap
   \<and> pending_deal (snd (run [HandleBribe 1 0, Decide 1 0 None, RecordRound Bribe Inspect False,
        Decide 2 0 (Some Bribe)]
      (InspectorAI_init (scripted_random [] (1/10)) 7 None))) = Some Trap"
  by (simp add: case_prod_beta decide_pending handle_bribe_eq init_fields scripted_random_def
      get_bribe_response_def llm_or_fallback_def record_round_def)

theorem honoured_bribe_immunity_witness:
  "rng (InspectorAI_init (scripted_random [1/10, 1/10, 1/10, 1/10, 9/10] (1/10)) 7 None) 0
     < greed (InspectorAI_init (scripted_random [1/10, 1/10, 1/10, 1/10, 9/10] (1/10)) 7 None)
       + trust_level (InspectorAI_init (scripted_random [1/10, 1/10, 1/10, 1/10, 9/10] (1/10)) 7 None)
         * (2 / 10)
   \<and> \<not> rng (InspectorAI_init (scripted_random [1/10, 1/10, 1/10, 1/10, 9/10] (1/10)) 7 None) 1
     < deceptiveness (InspectorAI_init (scripted_random [1/10, 1/10, 1/10, 1/10, 9/10] (1/10)) 7 None)
       * (1 / 2)
   \<and> fst (decide 1 0 None (snd (handle_bribe 1 0
        (InspectorAI_init (scripted_random [1/10, 1/10, 1/10, 1/10, 9/10] (1/10)) 7 None))))
       = (DontInspect, False, Some ''I'm looking the other way.'')
   \<and> fst (decide 2 0 (Some Bribe) ((snd (handle_bribe 1 0
        (InspectorAI_init (scripted_random [1/10, 1/10, 1/10, 1/10, 9/10] (1/10)) 7 None)))
          \<lparr>immunity_turns := 1\<rparr>))
       = (DontInspect, False, Some ''I'm looking the other way.'')
   \<and> fst (decide 3 0 (Some LayLow) ((snd (handle_bribe 1 0
        (InspectorAI_init (scripted_random [1/10, 1/10, 1/10, 1/10, 9/10] (1/10)) 7 None)))
          \<lparr>immunity_turns := 0\<rparr>))
       = (Inspect, False, None)"
  using honoured_bribe_immunity
    [of "InspectorAI_init (scripted_random [1/10, 1/10, 1/10, 1/10, 9/10] (1/10)) 7 None" 1
        "snd (handle_bribe 1 0
          (InspectorAI_init (scripted_random [1/10, 1/10, 1/10, 1/10, 9/10] (1/10)) 7 None))"
        0 1 0 None 2 0 "Some Bribe" 3 0 "Some LayLow"]
  by (simp add: eval_defs)

theorem detect_pattern_cases_witness:
  "length (history_smuggler ((InspectorAI_init (scripted_random [] (1/2)) 7 None)
      \<lparr>history_smuggler := [Smuggle, Smuggle]\<rparr>)) < 3
   \<and> detect_pattern ((InspectorAI_init (scripted_random [] (1/2)) 7 None)
      \<lparr>history_smuggler := [Smuggle, Smuggle]\<rparr>) = None
   \<and> history_smuggler ((InspectorAI_init (scripted_random [] (1/2)) 7 None)
      \<lparr>history_smuggler := [LayLow, Smuggle, LayLow, Smuggle, LayLow]\<rparr>)
       = [LayLow, Smuggle] @ [LayLow, Smuggle, LayLow]
   \<and> detect_pattern ((InspectorAI_init (scripted_random [] (1/2)) 7 None)
      \<lparr>history_smuggler := [LayLow, Smuggle, LayLow, Smuggle, LayLow]\<rparr>) = Some Inspect"
  using detect_pattern_cases
      [of "(InspectorAI_init (scripted_random [] (1/2)) 7 None)
             \<lparr>history_smuggler := [Smuggle, Smuggle]\<rparr>" "[]" Smuggle Smuggle Smuggle]
    detect_pattern_cases
      [of "(InspectorAI_init (scripted_random [] (1/2)) 7 None)
             \<lparr>history_smuggler := [LayLow, Smuggle, LayLow, Smuggle, LayLow]\<rparr>"
          "[LayLow, Smuggle]" LayLow Smuggle LayLow]
  by (simp add: is_passive_def)

theorem pending_deal_lifecycle_witness:
  "pending_deal (InspectorAI_init (scripted_random [] (1/10)) 7 None) \<noteq> Some Accepted
   \<and> pending_deal (snd (resolve_round 1 0 None Bribe
        (InspectorAI_init (scripted_random [] (1/10)) 7 None))) = None
   \<and> res_action (fst (resolve_round 1 0 None Bribe
        (InspectorAI_init (scripted_random [] (1/10)) 7 None))) = Inspect
   \<and> res_was_trap (fst (resolve_round 1 0 None Bribe
        (InspectorAI_init (scripted_random [] (1/10)) 7 None)))
   \<and> pending_deal (snd (decide 1 0 None ((InspectorAI_init (scripted_random [] (1/10)) 7 None)
        \<lparr>pending_deal := Some Accepted\<rparr>))) = None
   \<and> pending_deal (snd (decide 1 0 None ((InspectorAI_init (scripted_random [] (1/10)) 7 None)
        \<lparr>pending_deal := Some Accepted, immunity_turns := 1\<rparr>))) = Some Accepted
   \<and> Some Safe \<noteq> Some Accepted
   \<and> decide 1 0 None ((InspectorAI_init (scripted_random [] (1/10)) 7 None)
        \<lparr>pending_deal := Some Safe\<rparr>) =
       ((Inspect, False, None),
        (snd (decide 1 0 None ((InspectorAI_init (scripted_random [] (1/10)) 7 None)
           \<lparr>pending_deal := None\<rparr>)))\<lparr>pending_deal := Some Safe\<rparr>)"
  using pending_deal_lifecycle
      [of 1 0 None Bribe "InspectorAI_init (scripted_random [] (1/10)) 7 None" "Some Safe"]
    pending_deal_lifecycle
      [of 1 0 None Bribe "(InspectorAI_init (scripted_random [] (1/10)) 7 None)
        \<lparr>pending_deal := Some Accepted\<rparr>" "Some Safe"]
    pending_deal_lifecycle
      [of 1 0 None Bribe "(InspectorAI_init (scripted_random [] (1/10)) 7 None)
        \<lparr>pending_deal := Some Accepted, immunity_turns := 1\<rparr>" "Some Safe"]
  by (simp add: eval_defs resolve_round_def record_honesty_def)

end
